theory Spec2Isabelle
  imports Main "HOL-Library.AList"
begin

section \<open>Python values: exceptions and results\<close>

text \<open>
  The program is \<^verbatim>\<open>code_lens_llm.py\<close>. A call that may raise returns a value of
  \<open>py_error + 'a\<close>: \<open>Inl\<close> is the exception, \<open>Inr\<close> the value returned.
\<close>

datatype py_error = SyntaxError string | KeyError string | OtherException string

type_synonym 'a result = "py_error + 'a"

text \<open>Sequencing of two statements: an exception of the first skips the second.\<close>

fun rbind :: "'a result \<Rightarrow> ('a \<Rightarrow> 'b result) \<Rightarrow> 'b result" where
  "rbind (Inl err) f = Inl err"
| "rbind (Inr v) f = f v"

section \<open>The syntax tree of the \<^verbatim>\<open>ast\<close> module, as far as the program reads it\<close>

text \<open>
  Expressions are opaque to the program: it hands them to \<^verbatim>\<open>ast.unparse\<close> and
  \<^verbatim>\<open>ast.get_docstring\<close> only. They are the type parameter \<open>'e\<close>.
\<close>

record 'e arg =
  arg :: string
  annotation :: "'e option"

record 'e arguments =
  posonlyargs :: "'e arg list"
  args :: "'e arg list"
  vararg :: "'e arg option"
  kwonlyargs :: "'e arg list"
  kw_defaults :: "'e option list"
  kwarg :: "'e arg option"
  defaults :: "'e list"

text \<open>
  Statements: \<open>FunctionDef name args body returns\<close>, the same for
  \<open>AsyncFunctionDef\<close>, \<open>ClassDef name body\<close>, the expression statement \<open>Expr\<close>, and
  \<open>OtherStmt\<close> for every other kind of statement, with the statements nested in it.
\<close>

datatype 'e stmt =
    FunctionDef string "'e arguments" "'e stmt list" "'e option"
  | AsyncFunctionDef string "'e arguments" "'e stmt list" "'e option"
  | ClassDef string "'e stmt list"
  | Expr 'e
  | OtherStmt "'e stmt list"

text \<open>
  What the program takes from its libraries and its configuration:
  \<^item> \<open>has_unparse\<close> is \<^verbatim>\<open>hasattr(ast, 'unparse')\<close>, \<open>unparse\<close> is \<^verbatim>\<open>ast.unparse\<close>,
    which may raise;
  \<^item> \<open>str_constant e\<close> is the string \<open>e\<close> holds when \<open>e\<close> is a \<^verbatim>\<open>Constant\<close> whose value is a
    \<^verbatim>\<open>str\<close>, and \<open>cleandoc\<close> is \<^verbatim>\<open>inspect.cleandoc\<close> (both used by
    \<^verbatim>\<open>ast.get_docstring\<close>);
  \<^item> \<open>parse path\<close> is opening, reading and \<^verbatim>\<open>ast.parse\<close> of the file at \<open>path\<close>: the
    body of the module, or the exception raised;
  \<^item> \<open>relpath\<close> is \<^verbatim>\<open>os.path.relpath\<close>;
  \<^item> \<open>REPORT_EMPTY_ITEMS\<close> is the global of that name.
\<close>

record 'e env =
  has_unparse :: bool
  unparse :: "'e \<Rightarrow> string result"
  str_constant :: "'e \<Rightarrow> string option"
  cleandoc :: "string \<Rightarrow> string"
  parse :: "string \<Rightarrow> 'e stmt list result"
  relpath :: "string \<Rightarrow> string \<Rightarrow> string"
  REPORT_EMPTY_ITEMS :: bool

text \<open>\<^verbatim>\<open>ast.get_docstring(node)\<close>, on the body of \<open>node\<close>.\<close>

definition get_docstring :: "'e env \<Rightarrow> 'e stmt list \<Rightarrow> string option" where
  "get_docstring env body =
     (case body of
        Expr e # _ \<Rightarrow>
          (case str_constant env e of
             Some text \<Rightarrow> Some (cleandoc env text)
           | None \<Rightarrow> None)
      | _ \<Rightarrow> None)"

section \<open>\<^verbatim>\<open>get_function_signature\<close>\<close>

text \<open>\<^verbatim>\<open>sep.join(xs)\<close>\<close>

fun join :: "string \<Rightarrow> string list \<Rightarrow> string" where
  "join sep [] = []"
| "join sep [x] = x"
| "join sep (x # y # ys) = x @ sep @ join sep (y # ys)"

text \<open>
  Lines 134-135: the dictionary \<^verbatim>\<open>defaults\<close>, from
  \<^verbatim>\<open>len(args.args) - len(args.defaults) + i\<close> (a Python integer, negative when there are
  more defaults than plain parameters) to default \<open>i\<close>.
\<close>

definition defaults_table :: "'e arguments \<Rightarrow> (int \<rightharpoonup> 'e)" where
  "defaults_table a =
     fold (\<lambda>(i, d) m. m(int (length (args a)) - int (length (defaults a)) + int i \<mapsto> d))
       (enumerate 0 (defaults a)) Map.empty"

text \<open>
  The block that occurs at lines 140-143, 147-150, 157-160, 166-169 and 174-177:
  \<^verbatim>\<open>try: text = ast.unparse(e) if hasattr(ast, 'unparse') else '...'\<close>,
  \<^verbatim>\<open>except: text = '...'\<close>.
\<close>

definition unparse_or_placeholder :: "'e env \<Rightarrow> 'e \<Rightarrow> string result" where
  "unparse_or_placeholder env e =
     (case (if has_unparse env then unparse env e else Inr ''...'') of
        Inl _ \<Rightarrow> Inr ''...''
      | Inr text \<Rightarrow> Inr text)"

text \<open>
  Lines 146-151, 156-161 and 165-170: \<^verbatim>\<open>if x.annotation:\<close> append \<^verbatim>\<open>": " + annotation\<close>
  to the string built so far.
\<close>

definition add_annotation :: "'e env \<Rightarrow> string \<Rightarrow> 'e option \<Rightarrow> string result" where
  "add_annotation env s ann =
     (case ann of
        None \<Rightarrow> Inr s
      | Some t \<Rightarrow> rbind (unparse_or_placeholder env t) (\<lambda>text. Inr (s @ '': '' @ text)))"

text \<open>
  The loop of lines 136-152 over \<^verbatim>\<open>enumerate(func_node.args.args)\<close>: \<open>i\<close> is the index
  reached and \<open>acc\<close> the list \<^verbatim>\<open>args\<close> built so far.
\<close>

fun positional_args ::
  "'e env \<Rightarrow> (int \<rightharpoonup> 'e) \<Rightarrow> int \<Rightarrow> 'e arg list \<Rightarrow> string list \<Rightarrow> string list result" where
  "positional_args env dflts i [] acc = Inr acc"
| "positional_args env dflts i (a # rest) acc =
     rbind (case dflts i of
              None \<Rightarrow> Inr (arg a)
            | Some d \<Rightarrow> rbind (unparse_or_placeholder env d) (\<lambda>v. Inr (arg a @ ''='' @ v)))
       (\<lambda>arg_str.
     rbind (add_annotation env arg_str (annotation a))
       (\<lambda>arg_str. positional_args env dflts (i + 1) rest (acc @ [arg_str])))"

text \<open>
  \<^verbatim>\<open>get_function_signature(func_node, is_async)\<close>, on \<^verbatim>\<open>func_node.args\<close> and
  \<^verbatim>\<open>func_node.returns\<close>, the two fields of the node it reads.
\<close>

definition get_function_signature ::
  "'e env \<Rightarrow> 'e arguments \<Rightarrow> 'e option \<Rightarrow> bool \<Rightarrow> string result" where
  "get_function_signature env a returns is_async =
     rbind (positional_args env (defaults_table a) 0 (args a) []) (\<lambda>args1.
     rbind (case vararg a of
              None \<Rightarrow> Inr args1
            | Some v \<Rightarrow> rbind (add_annotation env (arg v) (annotation v))
                         (\<lambda>s. Inr (args1 @ [''*'' @ s]))) (\<lambda>args2.
     rbind (case kwarg a of
              None \<Rightarrow> Inr args2
            | Some k \<Rightarrow> rbind (add_annotation env (arg k) (annotation k))
                         (\<lambda>s. Inr (args2 @ [''**'' @ s]))) (\<lambda>args3.
     rbind (case returns of
              None \<Rightarrow> Inr (''('' @ join '', '' args3 @ '')'')
            | Some r \<Rightarrow> rbind (unparse_or_placeholder env r)
                         (\<lambda>t. Inr (''('' @ join '', '' args3 @ '')'' @ '' -> '' @ t)))
       (\<lambda>signature.
     Inr (if is_async then ''async '' @ signature else signature)))))"

section \<open>\<^verbatim>\<open>extract_signatures_with_ast\<close>\<close>

text \<open>
  The dictionaries of the report. A key that can be deleted is an optional field:
  \<open>None\<close> is the key absent. A dictionary from names keeps its insertion order; it is
  an association list, written with \<open>AList.update\<close>.
\<close>

record func_info =
  signature :: "string option"
  docstring :: "string option"

record class_entry =
  methods :: "(string \<times> func_info) list option"
  class_docstring :: "string option"

record module_info =
  "functions" :: "(string \<times> func_info) list option"
  classes :: "(string \<times> class_entry) list option"

text \<open>
  Lines 54-58 (and 61-65, 72-76, 79-83): the dictionary of one function or method.
\<close>

definition make_func_info ::
  "'e env \<Rightarrow> bool \<Rightarrow> 'e arguments \<Rightarrow> 'e stmt list \<Rightarrow> 'e option \<Rightarrow> bool \<Rightarrow> func_info result" where
  "make_func_info env include_docstrings a body returns is_async =
     rbind (get_function_signature env a returns is_async) (\<lambda>sig.
       Inr \<lparr>signature = Some sig,
            docstring =
              (if include_docstrings
               then Some (case get_docstring env body of
                            None \<Rightarrow> ''''
                          | Some d \<Rightarrow> if d \<noteq> [] then d else '''')
               else None)\<rparr>)"

text \<open>The loop of lines 70-84 over the body of a class.\<close>

fun class_items ::
  "'e env \<Rightarrow> bool \<Rightarrow> 'e stmt list \<Rightarrow> (string \<times> func_info) list
     \<Rightarrow> (string \<times> func_info) list result" where
  "class_items env incl [] class_info = Inr class_info"
| "class_items env incl (FunctionDef name a body returns # rest) class_info =
     rbind (make_func_info env incl a body returns False) (\<lambda>method_info.
       class_items env incl rest (AList.update name method_info class_info))"
| "class_items env incl (AsyncFunctionDef name a body returns # rest) class_info =
     rbind (make_func_info env incl a body returns True) (\<lambda>method_info.
       class_items env incl rest (AList.update name method_info class_info))"
| "class_items env incl (_ # rest) class_info = class_items env incl rest class_info"

text \<open>
  The loop of lines 52-88 over the body of the module; the state is the pair of
  \<^verbatim>\<open>module_info['functions']\<close> and \<^verbatim>\<open>module_info['classes']\<close>.
\<close>

fun module_items ::
  "'e env \<Rightarrow> bool \<Rightarrow> 'e stmt list \<Rightarrow> (string \<times> func_info) list \<Rightarrow> (string \<times> class_entry) list
     \<Rightarrow> ((string \<times> func_info) list \<times> (string \<times> class_entry) list) result" where
  "module_items env incl [] fs cs = Inr (fs, cs)"
| "module_items env incl (FunctionDef name a body returns # rest) fs cs =
     rbind (make_func_info env incl a body returns False) (\<lambda>func_info.
       module_items env incl rest (AList.update name func_info fs) cs)"
| "module_items env incl (AsyncFunctionDef name a body returns # rest) fs cs =
     rbind (make_func_info env incl a body returns True) (\<lambda>func_info.
       module_items env incl rest (AList.update name func_info fs) cs)"
| "module_items env incl (ClassDef name body # rest) fs cs =
     rbind (class_items env incl body []) (\<lambda>class_info.
       module_items env incl rest fs
         (AList.update name
            \<lparr>methods = Some class_info,
             class_docstring =
               (if incl
                then Some (case get_docstring env body of
                             None \<Rightarrow> ''''
                           | Some d \<Rightarrow> if d \<noteq> [] then d else '''')
                else None)\<rparr> cs))"
| "module_items env incl (_ # rest) fs cs = module_items env incl rest fs cs"

subsection \<open>The pruning pass, lines 91-125\<close>

text \<open>
  Lines 99-100 and 113-114: delete \<^verbatim>\<open>'docstring'\<close> when it is present and empty.
\<close>

definition drop_empty_docstring :: "func_info \<Rightarrow> func_info" where
  "drop_empty_docstring info =
     (if docstring info = Some '''' then info\<lparr>docstring := None\<rparr> else info)"

text \<open>\<^verbatim>\<open>not func_info\<close>: the dictionary has no key left.\<close>

definition empty_func_info :: "func_info \<Rightarrow> bool" where
  "empty_func_info info = (signature info = None \<and> docstring info = None)"

text \<open>
  The loops of lines 98-103 and 112-117, over a snapshot of the items: each entry is
  cleaned in place, and deleted when nothing is left of it.
\<close>

fun prune_callables :: "(string \<times> func_info) list \<Rightarrow> (string \<times> func_info) list" where
  "prune_callables [] = []"
| "prune_callables ((name, info) # rest) =
     (if empty_func_info (drop_empty_docstring info)
      then prune_callables rest
      else (name, drop_empty_docstring info) # prune_callables rest)"

text \<open>Lines 108-121 on one class; \<^verbatim>\<open>class_details.get('methods', {})\<close> reads no absent key.\<close>

definition prune_class :: "class_entry \<Rightarrow> class_entry" where
  "prune_class c =
     (let c1 = (if class_docstring c = Some '''' then c\<lparr>class_docstring := None\<rparr> else c);
          c2 = (case methods c1 of
                  None \<Rightarrow> c1
                | Some ms \<Rightarrow> c1\<lparr>methods := Some (prune_callables ms)\<rparr>)
      in if methods c2 = Some [] then c2\<lparr>methods := None\<rparr> else c2)"

text \<open>\<^verbatim>\<open>not class_details\<close>\<close>

definition empty_class_entry :: "class_entry \<Rightarrow> bool" where
  "empty_class_entry c = (methods c = None \<and> class_docstring c = None)"

text \<open>The loop of lines 106-125.\<close>

fun prune_classes :: "(string \<times> class_entry) list \<Rightarrow> (string \<times> class_entry) list" where
  "prune_classes [] = []"
| "prune_classes ((name, c) # rest) =
     (if empty_class_entry (prune_class c)
      then prune_classes rest
      else (name, prune_class c) # prune_classes rest)"

text \<open>
  The whole pass. Lines 92 and 94 read \<^verbatim>\<open>module_info['functions']\<close> and
  \<^verbatim>\<open>module_info['classes']\<close> by subscript, which raises \<^verbatim>\<open>KeyError\<close> on an absent key;
  lines 98 and 106 read them with \<^verbatim>\<open>get\<close>.
\<close>

definition prune_empty_items :: "module_info \<Rightarrow> module_info result" where
  "prune_empty_items m =
     (case functions m of
        None \<Rightarrow> Inl (KeyError ''functions'')
      | Some fs \<Rightarrow>
          (let m1 = (if fs = [] then m\<lparr>functions := None\<rparr> else m) in
           case classes m1 of
             None \<Rightarrow> Inl (KeyError ''classes'')
           | Some cs \<Rightarrow>
               (let m2 = (if cs = [] then m1\<lparr>classes := None\<rparr> else m1);
                    m3 = (case functions m2 of
                            None \<Rightarrow> m2
                          | Some fs2 \<Rightarrow> m2\<lparr>functions := Some (prune_callables fs2)\<rparr>);
                    m4 = (case classes m3 of
                            None \<Rightarrow> m3
                          | Some cs2 \<Rightarrow> m3\<lparr>classes := Some (prune_classes cs2)\<rparr>)
                in Inr m4)))"

text \<open>The empty dictionary \<^verbatim>\<open>{}\<close> as a module_info.\<close>

definition empty_module_info :: module_info where
  "empty_module_info = \<lparr>functions = None, classes = None\<rparr>"

text \<open>
  \<^verbatim>\<open>extract_signatures_with_ast(file_path, include_docstrings)\<close>. Both handlers of
  lines 43-48 return \<^verbatim>\<open>{}\<close>.
\<close>

definition extract_signatures_with_ast :: "'e env \<Rightarrow> string \<Rightarrow> bool \<Rightarrow> module_info result" where
  "extract_signatures_with_ast env file_path include_docstrings =
     (case parse env file_path of
        Inl _ \<Rightarrow> Inr empty_module_info
      | Inr body \<Rightarrow>
          rbind (module_items env include_docstrings body [] []) (\<lambda>(fs, cs).
            if REPORT_EMPTY_ITEMS env
            then prune_empty_items \<lparr>functions = Some fs, classes = Some cs\<rparr>
            else Inr \<lparr>functions = Some fs, classes = Some cs\<rparr>))"

section \<open>\<^verbatim>\<open>extract_signatures_with_ast_method\<close>\<close>

text \<open>The truth value of a module_info: a dictionary is true when it has a key.\<close>

definition truthy :: "module_info \<Rightarrow> bool" where
  "truthy m = (case (functions m, classes m) of (None, None) \<Rightarrow> False | _ \<Rightarrow> True)"

text \<open>The loop of lines 189-193; \<open>result\<close> is the dictionary built so far.\<close>

fun extract_files ::
  "'e env \<Rightarrow> string \<Rightarrow> bool \<Rightarrow> string list \<Rightarrow> (string \<times> module_info) list
     \<Rightarrow> (string \<times> module_info) list result" where
  "extract_files env codebase_path incl [] result = Inr result"
| "extract_files env codebase_path incl (file_path # rest) result =
     rbind (extract_signatures_with_ast env file_path incl) (\<lambda>signatures.
       if truthy signatures \<or> \<not> REPORT_EMPTY_ITEMS env
       then extract_files env codebase_path incl rest
              (AList.update (relpath env file_path codebase_path) signatures result)
       else extract_files env codebase_path incl rest result)"

definition extract_signatures_with_ast_method ::
  "'e env \<Rightarrow> string \<Rightarrow> string list \<Rightarrow> bool \<Rightarrow> (string \<times> module_info) list result" where
  "extract_signatures_with_ast_method env codebase_path python_files include_docstrings =
     extract_files env codebase_path include_docstrings python_files []"

section \<open>The text of a signature, part by part\<close>

text \<open>
  The values the statements of \<^verbatim>\<open>get_function_signature\<close> compute, written without the
  result type; the lemmas below show that the function returns them. \<open>expr_text\<close> is what
  the \<^verbatim>\<open>try\<close> block leaves in its variable.
\<close>

definition expr_text :: "'e env \<Rightarrow> 'e \<Rightarrow> string" where
  "expr_text env e =
     (if has_unparse env
      then (case unparse env e of Inl _ \<Rightarrow> ''...'' | Inr text \<Rightarrow> text)
      else ''...'')"

definition annotation_suffix :: "'e env \<Rightarrow> 'e option \<Rightarrow> string" where
  "annotation_suffix env ann = (case ann of None \<Rightarrow> '''' | Some t \<Rightarrow> '': '' @ expr_text env t)"

text \<open>The string appended to \<^verbatim>\<open>args\<close> for one plain parameter, from its default if any.\<close>

definition positional_entry :: "'e env \<Rightarrow> 'e option \<Rightarrow> 'e arg \<Rightarrow> string" where
  "positional_entry env dflt a =
     arg a @ (case dflt of None \<Rightarrow> '''' | Some d \<Rightarrow> ''='' @ expr_text env d)
       @ annotation_suffix env (annotation a)"

fun positional_entries :: "'e env \<Rightarrow> (int \<rightharpoonup> 'e) \<Rightarrow> int \<Rightarrow> 'e arg list \<Rightarrow> string list" where
  "positional_entries env dflts i [] = []"
| "positional_entries env dflts i (a # rest) =
     positional_entry env (dflts i) a # positional_entries env dflts (i + 1) rest"

text \<open>The strings appended by lines 154-171.\<close>

definition variadic_entries :: "'e env \<Rightarrow> 'e arguments \<Rightarrow> string list" where
  "variadic_entries env a =
     (case vararg a of None \<Rightarrow> [] | Some v \<Rightarrow> [''*'' @ arg v @ annotation_suffix env (annotation v)])
     @ (case kwarg a of None \<Rightarrow> [] | Some k \<Rightarrow> [''**'' @ arg k @ annotation_suffix env (annotation k)])"

definition return_suffix :: "'e env \<Rightarrow> 'e option \<Rightarrow> string" where
  "return_suffix env returns = (case returns of None \<Rightarrow> '''' | Some r \<Rightarrow> '' -> '' @ expr_text env r)"

definition async_prefix :: "bool \<Rightarrow> string" where
  "async_prefix is_async = (if is_async then ''async '' else '''')"

text \<open>
  The rule of the specification for defaults, on the parameters that can be passed by
  position (in the syntax tree the list \<^verbatim>\<open>defaults\<close> covers \<^verbatim>\<open>posonlyargs\<close> followed by
  \<^verbatim>\<open>args\<close>): with \<open>N\<close> parameters and \<open>D\<close> defaults, parameter \<open>k\<close> has default
  \<open>k - (N - D)\<close> when \<open>N - D \<le> k\<close>, and none before. \<open>trailing_rule_entries\<close> renders
  the plain parameters with the defaults this rule gives them.
\<close>

definition trailing_default :: "'e arg list \<Rightarrow> 'e list \<Rightarrow> nat \<Rightarrow> 'e option" where
  "trailing_default params ds k =
     (if length params - length ds \<le> k \<and> k < length params
      then Some (ds ! (k - (length params - length ds)))
      else None)"

definition trailing_rule_entries :: "'e env \<Rightarrow> 'e arguments \<Rightarrow> string list" where
  "trailing_rule_entries env a =
     map (\<lambda>j. positional_entry env
                 (trailing_default (posonlyargs a @ args a) (defaults a) (length (posonlyargs a) + j))
                 (args a ! j))
       [0..<length (args a)]"

section \<open>The part of a module the extractor reads\<close>

text \<open>
  \<open>shallow_module\<close> erases from the body of a module everything but: the function,
  async function and class declarations at top level; in each class, the function and async
  function declarations directly in its body; and, of the body of each of these declarations,
  the leading expression statement that \<^verbatim>\<open>ast.get_docstring\<close> looks at.
\<close>

fun docstring_stmt :: "'e stmt list \<Rightarrow> 'e stmt list" where
  "docstring_stmt (Expr e # _) = [Expr e]"
| "docstring_stmt _ = []"

fun shallow_method :: "'e stmt \<Rightarrow> 'e stmt list" where
  "shallow_method (FunctionDef name a body returns) =
     [FunctionDef name a (docstring_stmt body) returns]"
| "shallow_method (AsyncFunctionDef name a body returns) =
     [AsyncFunctionDef name a (docstring_stmt body) returns]"
| "shallow_method _ = []"

definition shallow_class_body :: "'e stmt list \<Rightarrow> 'e stmt list" where
  "shallow_class_body body =
     docstring_stmt body @ concat (map shallow_method body)"

fun shallow_top :: "'e stmt \<Rightarrow> 'e stmt list" where
  "shallow_top (FunctionDef name a body returns) =
     [FunctionDef name a (docstring_stmt body) returns]"
| "shallow_top (AsyncFunctionDef name a body returns) =
     [AsyncFunctionDef name a (docstring_stmt body) returns]"
| "shallow_top (ClassDef name body) = [ClassDef name (shallow_class_body body)]"
| "shallow_top _ = []"

definition shallow_module :: "'e stmt list \<Rightarrow> 'e stmt list" where
  "shallow_module body = concat (map shallow_top body)"

section \<open>Sample inputs\<close>

text \<open>
  Expressions for the examples: \<open>Src text\<close> unparses to \<open>text\<close>, \<open>StrLit s\<close> is a string
  constant, and \<^verbatim>\<open>ast.unparse\<close> raises on \<open>Unrenderable\<close>.
\<close>

datatype sample_expr = Src string | StrLit string | Unrenderable

definition no_arguments :: "'e arguments" where
  "no_arguments =
     \<lparr>posonlyargs = [], args = [], vararg = None, kwonlyargs = [], kw_defaults = [],
      kwarg = None, defaults = []\<rparr>"

definition param :: "string \<Rightarrow> 'e arg" where
  "param name = \<lparr>arg = name, annotation = None\<rparr>"

text \<open>
  The files of the examples. \<^verbatim>\<open>a.py\<close> is \<^verbatim>\<open>def f(a, b=2): pass\<close>; \<^verbatim>\<open>only_class.py\<close> is
  \<^verbatim>\<open>class C: pass\<close>; \<^verbatim>\<open>nested.py\<close> has an import, a function with a function inside, and a
  class with a class inside, a method, and a method under an \<^verbatim>\<open>if\<close>; \<^verbatim>\<open>bad.py\<close> does not parse.
\<close>

definition sample_parse :: "string \<Rightarrow> sample_expr stmt list result" where
  "sample_parse path =
     (if path = ''root/a.py'' then
        Inr [FunctionDef ''f''
               (no_arguments\<lparr>args := [param ''a'', param ''b''], defaults := [Src ''2'']\<rparr>)
               [OtherStmt []] None]
      else if path = ''root/only_class.py'' then
        Inr [ClassDef ''C'' [OtherStmt []]]
      else if path = ''root/nested.py'' then
        Inr [OtherStmt [],
             FunctionDef ''outer'' no_arguments
               [FunctionDef ''inner'' no_arguments [OtherStmt []] None, OtherStmt []] None,
             ClassDef ''K''
               [ClassDef ''Inner'' [FunctionDef ''deep'' no_arguments [OtherStmt []] None],
                FunctionDef ''m'' (no_arguments\<lparr>args := [param ''self'']\<rparr>) [OtherStmt []] None,
                OtherStmt [FunctionDef ''hidden'' no_arguments [OtherStmt []] None]]]
      else if path = ''root/bad.py'' then Inl (SyntaxError ''invalid syntax'')
      else Inl (OtherException ''FileNotFoundError''))"

definition sample_env :: "sample_expr env" where
  "sample_env =
     \<lparr>has_unparse = True,
      unparse = (\<lambda>e. case e of
                   Src text \<Rightarrow> Inr text
                 | StrLit s \<Rightarrow> Inr (CHR 0x27 # s @ [CHR 0x27])
                 | Unrenderable \<Rightarrow> Inl (OtherException ''RecursionError'')),
      str_constant = (\<lambda>e. case e of StrLit s \<Rightarrow> Some s | _ \<Rightarrow> None),
      cleandoc = (\<lambda>s. s),
      parse = sample_parse,
      relpath = (\<lambda>path start. drop (Suc (length start)) path),
      REPORT_EMPTY_ITEMS = True\<rparr>"

section \<open>What \<^verbatim>\<open>get_function_signature\<close> returns\<close>

lemma unparse_or_placeholder_eq: "unparse_or_placeholder env e = Inr (expr_text env e)"
  by (simp add: unparse_or_placeholder_def expr_text_def split: sum.splits)

lemma add_annotation_eq: "add_annotation env s ann = Inr (s @ annotation_suffix env ann)"
  by (cases ann) (simp_all add: add_annotation_def annotation_suffix_def unparse_or_placeholder_eq)

lemma positional_args_eq:
  "positional_args env dflts i ps acc = Inr (acc @ positional_entries env dflts i ps)"
proof (induction ps arbitrary: i acc)
  case Nil
  show ?case by simp
next
  case (Cons p ps)
  show ?case
    by (cases "dflts i")
       (simp_all add: Cons.IH add_annotation_eq unparse_or_placeholder_eq positional_entry_def)
qed

lemma length_positional_entries [simp]:
  "length (positional_entries env dflts i ps) = length ps"
  by (induction ps arbitrary: i) simp_all

lemma nth_positional_entries:
  "k < length ps \<Longrightarrow>
   positional_entries env dflts i ps ! k = positional_entry env (dflts (i + int k)) (ps ! k)"
proof (induction ps arbitrary: i k)
  case Nil
  then show ?case by simp
next
  case (Cons p ps)
  show ?case
  proof (cases k)
    case 0
    then show ?thesis by simp
  next
    case (Suc n)
    with Cons.prems have "n < length ps" by simp
    from Cons.IH [OF this, of "i + 1"] Suc show ?thesis by (simp add: add.assoc)
  qed
qed

lemma get_function_signature_eq:
  "get_function_signature env a returns is_async =
     Inr (async_prefix is_async @ ''('' @
          join '', '' (positional_entries env (defaults_table a) 0 (args a) @ variadic_entries env a)
          @ '')'' @ return_suffix env returns)"
  by (cases "vararg a"; cases "kwarg a"; cases returns)
     (simp_all add: get_function_signature_def positional_args_eq add_annotation_eq
        unparse_or_placeholder_eq variadic_entries_def return_suffix_def async_prefix_def)

lemma fold_defaults:
  "fold (\<lambda>(i, d) m. m(c + int i \<mapsto> d)) (enumerate n ds) m0 k =
     (if c + int n \<le> k \<and> k < c + int n + int (length ds)
      then Some (ds ! nat (k - c - int n)) else m0 k)"
proof (induction ds arbitrary: n m0)
  case Nil
  show ?case by auto
next
  case (Cons d ds)
  have step: "fold (\<lambda>(i, d) m. m(c + int i \<mapsto> d)) (enumerate n (d # ds)) m0 =
      fold (\<lambda>(i, d) m. m(c + int i \<mapsto> d)) (enumerate (Suc n) ds) (m0(c + int n \<mapsto> d))"
    by (simp del: fun_upd_apply)
  have idx: "nat (k - c - int n) = Suc (nat (k - c - int (Suc n)))" if "c + int n < k"
    using that by simp
  show ?case
    unfolding step Cons.IH
  proof (cases "k = c + int n")
    case True
    then show "(if c + int (Suc n) \<le> k \<and> k < c + int (Suc n) + int (length ds)
        then Some (ds ! nat (k - c - int (Suc n))) else (m0(c + int n \<mapsto> d)) k) =
       (if c + int n \<le> k \<and> k < c + int n + int (length (d # ds))
        then Some ((d # ds) ! nat (k - c - int n)) else m0 k)"
      by simp
  next
    case False
    then show "(if c + int (Suc n) \<le> k \<and> k < c + int (Suc n) + int (length ds)
        then Some (ds ! nat (k - c - int (Suc n))) else (m0(c + int n \<mapsto> d)) k) =
       (if c + int n \<le> k \<and> k < c + int n + int (length (d # ds))
        then Some ((d # ds) ! nat (k - c - int n)) else m0 k)"
      using idx by auto
  qed
qed

lemma defaults_table_eq:
  "defaults_table a k =
     (if int (length (args a)) - int (length (defaults a)) \<le> k \<and> k < int (length (args a))
      then Some (defaults a ! nat (k - (int (length (args a)) - int (length (defaults a)))))
      else None)"
  unfolding defaults_table_def fold_defaults by (simp add: algebra_simps)

lemma positional_entries_trailing:
  assumes "length (defaults a) \<le> length (args a)"
  shows "positional_entries env (defaults_table a) 0 (args a) =
     map (\<lambda>p. arg p @ annotation_suffix env (annotation p))
       (take (length (args a) - length (defaults a)) (args a))
     @ map2 (\<lambda>p d. arg p @ ''='' @ expr_text env d @ annotation_suffix env (annotation p))
         (drop (length (args a) - length (defaults a)) (args a)) (defaults a)"
  (is "?l = ?r")
proof (rule nth_equalityI)
  show "length ?l = length ?r" using assms by simp
next
  fix k assume "k < length ?l"
  then have k: "k < length (args a)" by simp
  show "?l ! k = ?r ! k"
  proof (cases "k < length (args a) - length (defaults a)")
    case True
    with k assms show ?thesis
      by (simp add: nth_positional_entries defaults_table_eq nth_append positional_entry_def)
  next
    case False
    with k assms show ?thesis
      by (simp add: nth_positional_entries defaults_table_eq nth_append positional_entry_def
            nat_diff_distrib')
  qed
qed

lemma positional_entries_cong:
  assumes "\<And>k. k < length ps \<Longrightarrow> t1 (i + int k) = t2 (i + int k)"
  shows "positional_entries env t1 i ps = positional_entries env t2 i ps"
  by (rule nth_equalityI) (simp_all add: nth_positional_entries assms)

lemma defaults_table_posonly:
  assumes "length (defaults a) \<le> length (posonlyargs a) + length (args a)"
    and "j < length (args a)"
  shows "defaults_table a (int j) =
     trailing_default (posonlyargs a @ args a) (defaults a) (length (posonlyargs a) + j)"
proof -
  have "nat (int j - (int (length (args a)) - int (length (defaults a)))) =
      length (posonlyargs a) + j - (length (posonlyargs a) + length (args a) - length (defaults a))"
    if "int (length (args a)) - int (length (defaults a)) \<le> int j"
    using that assms by linarith
  with assms show ?thesis
    by (auto simp add: defaults_table_eq trailing_default_def)
qed

lemma signature_follows_trailing_rule:
  assumes "length (defaults a) \<le> length (posonlyargs a) + length (args a)"
  shows "get_function_signature env a returns is_async =
     Inr (async_prefix is_async @ ''(''
          @ join '', '' (trailing_rule_entries env a @ variadic_entries env a)
          @ '')'' @ return_suffix env returns)"
proof -
  have "positional_entries env (defaults_table a) 0 (args a) = trailing_rule_entries env a"
    by (rule nth_equalityI)
       (simp_all add: nth_positional_entries trailing_rule_entries_def
          defaults_table_posonly [OF assms])
  then show ?thesis by (simp add: get_function_signature_eq)
qed

lemma signature_without_posonly:
  "get_function_signature env a returns is_async =
   get_function_signature env
     (a\<lparr>posonlyargs := [],
        defaults := drop (length (defaults a) - length (args a)) (defaults a)\<rparr>)
     returns is_async"
proof -
  have "positional_entries env (defaults_table a) 0 (args a) =
      positional_entries env
        (defaults_table (a\<lparr>posonlyargs := [],
           defaults := drop (length (defaults a) - length (args a)) (defaults a)\<rparr>)) 0 (args a)"
  proof (rule positional_entries_cong)
    fix k assume k: "k < length (args a)"
    show "defaults_table a (0 + int k) =
      defaults_table (a\<lparr>posonlyargs := [],
           defaults := drop (length (defaults a) - length (args a)) (defaults a)\<rparr>) (0 + int k)"
    proof (cases "length (defaults a) \<le> length (args a)")
      case True
      then show ?thesis by (simp add: defaults_table_eq)
    next
      case False
      then have "nat (int k - (int (length (args a)) - int (length (defaults a)))) =
          length (defaults a) - length (args a) + k"
        by linarith
      with False k show ?thesis
        by (simp add: defaults_table_eq)
    qed
  qed
  then show ?thesis
    by (simp add: get_function_signature_eq variadic_entries_def)
qed

lemma sample_env_simps:
  "has_unparse sample_env = True"
  "unparse sample_env (Src text) = Inr text"
  "unparse sample_env (StrLit s) = Inr (CHR 0x27 # s @ [CHR 0x27])"
  "unparse sample_env Unrenderable = Inl (OtherException ''RecursionError'')"
  "str_constant sample_env (Src text) = None"
  "str_constant sample_env (StrLit s) = Some s"
  "str_constant sample_env Unrenderable = None"
  "cleandoc sample_env s = s"
  "parse sample_env = sample_parse"
  "relpath sample_env path start = drop (Suc (length start)) path"
  "REPORT_EMPTY_ITEMS sample_env = True"
  by (simp_all add: sample_env_def)

lemmas text_simps =
  async_prefix_def annotation_suffix_def expr_text_def variadic_entries_def return_suffix_def
  no_arguments_def param_def sample_env_simps

section \<open>Properties of the signature renderer\<close>

text \<open>
  C3: with P plain positional parameters and D defaults, D \<le> P, the first P - D
  parameters are rendered without a default, and default i is attached to the parameter at
  index P - D + i: the last D parameters are rendered with the defaults, in order.
\<close>

theorem defaults_bind_to_trailing_positionals:
  assumes "length (defaults a) \<le> length (args a)"
  shows "get_function_signature env a returns is_async =
     Inr (async_prefix is_async @ ''('' @
          join '', ''
            (map (\<lambda>p. arg p @ annotation_suffix env (annotation p))
               (take (length (args a) - length (defaults a)) (args a))
             @ map2 (\<lambda>p d. arg p @ ''='' @ expr_text env d @ annotation_suffix env (annotation p))
                 (drop (length (args a) - length (defaults a)) (args a)) (defaults a)
             @ variadic_entries env a)
          @ '')'' @ return_suffix env returns)"
  by (simp add: get_function_signature_eq positional_entries_trailing [OF assms])

theorem defaults_bind_to_trailing_positionals_witness:
  "length (defaults (no_arguments\<lparr>args := [param ''a'', param ''b''], defaults := [Src ''2'']\<rparr>))
     \<le> length (args (no_arguments\<lparr>args := [param ''a'', param ''b''], defaults := [Src ''2'']\<rparr>))
   \<and> get_function_signature sample_env
       (no_arguments\<lparr>args := [param ''a'', param ''b''], defaults := [Src ''2'']\<rparr>) None False
     = Inr ''(a, b=2)''"
proof -
  let ?f = "no_arguments\<lparr>args := [param ''a'', param ''b''], defaults := [Src ''2'']\<rparr>"
  have h: "length (defaults ?f) \<le> length (args ?f)" by simp
  from defaults_bind_to_trailing_positionals [OF h, of sample_env None False] h
  show ?thesis by (simp add: text_simps)
qed

text \<open>
  C4: a plain positional parameter with a default and an annotation is rendered as its
  name, then \<^verbatim>\<open>=\<close> and the default, then \<^verbatim>\<open>: \<close> and the annotation.
\<close>

theorem annotation_follows_default:
  assumes "i < length (args a)"
    and "length (args a) \<le> i + length (defaults a)"
    and "annotation (args a ! i) = Some t"
  shows "\<exists>entries.
      positional_args env (defaults_table a) 0 (args a) [] = Inr entries
    \<and> length entries = length (args a)
    \<and> entries ! i =
        arg (args a ! i) @ ''=''
          @ expr_text env (defaults a ! (i + length (defaults a) - length (args a)))
          @ '': '' @ expr_text env t
    \<and> get_function_signature env a returns is_async =
        Inr (async_prefix is_async @ ''('' @ join '', '' (entries @ variadic_entries env a)
             @ '')'' @ return_suffix env returns)"
proof -
  have idx: "nat (int i - (int (length (args a)) - int (length (defaults a))))
      = i + length (defaults a) - length (args a)"
    using assms(2) by linarith
  have "positional_entries env (defaults_table a) 0 (args a) ! i =
      arg (args a ! i) @ ''=''
        @ expr_text env (defaults a ! (i + length (defaults a) - length (args a)))
        @ '': '' @ expr_text env t"
    using assms
    by (simp add: nth_positional_entries defaults_table_eq positional_entry_def
          annotation_suffix_def idx)
  then show ?thesis
    by (simp add: positional_args_eq get_function_signature_eq)
qed

theorem annotation_follows_default_witness:
  "0 < length (args (no_arguments\<lparr>args := [\<lparr>arg = ''x'', annotation = Some (Src ''int'')\<rparr>],
                                  defaults := [Src ''5'']\<rparr>))
   \<and> get_function_signature sample_env
        (no_arguments\<lparr>args := [\<lparr>arg = ''x'', annotation = Some (Src ''int'')\<rparr>],
                      defaults := [Src ''5'']\<rparr>) None False
      = Inr ''(x=5: int)''"
proof -
  let ?f = "no_arguments\<lparr>args := [\<lparr>arg = ''x'', annotation = Some (Src ''int'')\<rparr>],
                         defaults := [Src ''5'']\<rparr>"
  have h1: "0 < length (args ?f)" by simp
  have h2: "length (args ?f) \<le> 0 + length (defaults ?f)" by simp
  have h3: "annotation (args ?f ! 0) = Some (Src ''int'')" by simp
  from annotation_follows_default [OF h1 h2 h3, of sample_env None False]
  obtain entries where len: "length entries = length (args ?f)"
    and e0: "entries ! 0 = arg (args ?f ! 0) @ ''=''
          @ expr_text sample_env (defaults ?f ! (0 + length (defaults ?f) - length (args ?f)))
          @ '': '' @ expr_text sample_env (Src ''int'')"
    and sig: "get_function_signature sample_env ?f None False =
        Inr (async_prefix False @ ''('' @ join '', '' (entries @ variadic_entries sample_env ?f)
             @ '')'' @ return_suffix sample_env None)"
    by blast
  from len have "entries = [entries ! 0]"
    by (cases entries) simp_all
  with e0 have "entries = [''x=5: int'']" by (simp add: text_simps)
  with sig h1 show ?thesis by (simp add: text_simps)
qed

text \<open>
  C7: the variadic positional parameter is rendered as \<^verbatim>\<open>*name\<close> and the variadic keyword
  parameter as \<^verbatim>\<open>**name\<close>, each followed by \<^verbatim>\<open>: \<close> and its annotation when it has one;
  both come after all positional entries, joined with them by commas inside one pair of
  parentheses. \<^verbatim>\<open>def h(*args, **kwargs)\<close> is rendered as \<^verbatim>\<open>(*args, **kwargs)\<close>.
\<close>

theorem variadic_parameters_rendering:
  "(\<exists>entries.
      positional_args env (defaults_table a) 0 (args a) [] = Inr entries
    \<and> length entries = length (args a)
    \<and> get_function_signature env a returns is_async =
        Inr (async_prefix is_async @ ''(''
             @ join '', ''
                 (entries
                  @ (case vararg a of
                       None \<Rightarrow> []
                     | Some v \<Rightarrow>
                         [''*'' @ arg v
                          @ (case annotation v of None \<Rightarrow> '''' | Some t \<Rightarrow> '': '' @ expr_text env t)])
                  @ (case kwarg a of
                       None \<Rightarrow> []
                     | Some k \<Rightarrow>
                         [''**'' @ arg k
                          @ (case annotation k of None \<Rightarrow> '''' | Some t \<Rightarrow> '': '' @ expr_text env t)]))
             @ '')'' @ return_suffix env returns))
   \<and> get_function_signature env
        (no_arguments\<lparr>vararg := Some (param ''args''), kwarg := Some (param ''kwargs'')\<rparr>)
        None False
      = Inr ''(*args, **kwargs)''"
  by (simp add: positional_args_eq get_function_signature_eq variadic_entries_def
        annotation_suffix_def async_prefix_def return_suffix_def no_arguments_def param_def
      split: option.split)

text \<open>
  C8: \<^verbatim>\<open>get_function_signature\<close> returns a string on every callable, whatever
  \<^verbatim>\<open>ast.unparse\<close> does: the result is the one obtained with an unparser that never raises
  and gives \<^verbatim>\<open>...\<close> wherever the real one raises or is missing. With a default, an
  annotation and a return annotation that cannot be unparsed, \<^verbatim>\<open>def f(x: ? = ?) -> ?\<close> is
  rendered as \<^verbatim>\<open>(x=...: ...) -> ...\<close>.
\<close>

theorem renderer_never_raises:
  "(\<exists>s. get_function_signature env a returns is_async = Inr s
       \<and> get_function_signature
            (env\<lparr>has_unparse := True,
                 unparse := (\<lambda>e. Inr (if has_unparse env
                                       then (case unparse env e of
                                               Inl _ \<Rightarrow> ''...''
                                             | Inr text \<Rightarrow> text)
                                       else ''...''))\<rparr>)
            a returns is_async = Inr s)
   \<and> get_function_signature sample_env
        (no_arguments\<lparr>args := [\<lparr>arg = ''x'', annotation = Some Unrenderable\<rparr>],
                      defaults := [Unrenderable]\<rparr>)
        (Some Unrenderable) False
      = Inr ''(x=...: ...) -> ...''"
proof -
  let ?safe = "env\<lparr>has_unparse := True,
                 unparse := (\<lambda>e. Inr (if has_unparse env
                                       then (case unparse env e of
                                               Inl _ \<Rightarrow> ''...''
                                             | Inr text \<Rightarrow> text)
                                       else ''...''))\<rparr>"
  have etext: "expr_text ?safe = expr_text env"
    by (rule ext) (simp add: expr_text_def)
  have ann: "annotation_suffix ?safe = annotation_suffix env"
    by (rule ext) (simp add: annotation_suffix_def etext split: option.split)
  have ent: "positional_entries ?safe dflts i ps = positional_entries env dflts i ps"
    for dflts i ps
    by (induction ps arbitrary: i) (simp_all add: positional_entry_def etext ann split: option.split)
  have "get_function_signature ?safe a returns is_async =
      get_function_signature env a returns is_async"
    unfolding get_function_signature_eq
    by (simp add: ent variadic_entries_def ann return_suffix_def etext split: option.split)
  moreover have "get_function_signature sample_env
        (no_arguments\<lparr>args := [\<lparr>arg = ''x'', annotation = Some Unrenderable\<rparr>],
                      defaults := [Unrenderable]\<rparr>)
        (Some Unrenderable) False
      = Inr ''(x=...: ...) -> ...''"
    by (simp add: get_function_signature_eq defaults_table_eq positional_entry_def text_simps)
  ultimately show ?thesis
    by (simp add: get_function_signature_eq)
qed

text \<open>
  C9: the keyword-only parameters and their defaults have no part in the rendered
  signature: it is the same whatever they are, and is made of the plain positional entries,
  the variadic positional and the variadic keyword parameter only.
  \<^verbatim>\<open>def f(a, *rest, key=1)\<close> is rendered as \<^verbatim>\<open>(a, *rest)\<close>.
\<close>

theorem keyword_only_parameters_not_rendered:
  "get_function_signature env (a\<lparr>kwonlyargs := ks, kw_defaults := kds\<rparr>) returns is_async
     = get_function_signature env a returns is_async
   \<and> get_function_signature env a returns is_async =
       Inr (async_prefix is_async @ ''(''
            @ join '', '' (positional_entries env (defaults_table a) 0 (args a)
                           @ variadic_entries env a)
            @ '')'' @ return_suffix env returns)
   \<and> get_function_signature sample_env
        (no_arguments\<lparr>args := [param ''a''], vararg := Some (param ''rest''),
                      kwonlyargs := [param ''key''], kw_defaults := [Some (Src ''1'')]\<rparr>)
        None False
      = Inr ''(a, *rest)''"
  by (simp add: get_function_signature_eq defaults_table_def positional_entry_def text_simps)

text \<open>
  C10, as amended: the positional-only parameters and their defaults have no part in the
  rendered signature, and every plain parameter is rendered with exactly the default that
  the trailing rule over positional-only and plain parameters together gives it.
\<close>

theorem positional_only_parameters_not_rendered:
  assumes "length (defaults a) \<le> length (posonlyargs a) + length (args a)"
  shows "get_function_signature env a returns is_async =
       get_function_signature env
         (a\<lparr>posonlyargs := [],
            defaults := drop (length (defaults a) - length (args a)) (defaults a)\<rparr>)
         returns is_async
   \<and> get_function_signature env a returns is_async =
       Inr (async_prefix is_async @ ''(''
            @ join '', '' (trailing_rule_entries env a @ variadic_entries env a)
            @ '')'' @ return_suffix env returns)"
  using signature_follows_trailing_rule [OF assms] signature_without_posonly by blast

theorem positional_only_parameters_not_rendered_witness:
  "length (defaults (no_arguments\<lparr>posonlyargs := [param ''a'', param ''b''],
                                  args := [param ''c''], defaults := [Src ''1'', Src ''2'']\<rparr>))
     \<le> length (posonlyargs (no_arguments\<lparr>posonlyargs := [param ''a'', param ''b''],
                                  args := [param ''c''], defaults := [Src ''1'', Src ''2'']\<rparr>))
       + length (args (no_arguments\<lparr>posonlyargs := [param ''a'', param ''b''],
                                  args := [param ''c''], defaults := [Src ''1'', Src ''2'']\<rparr>))
   \<and> get_function_signature sample_env
        (no_arguments\<lparr>posonlyargs := [param ''a'', param ''b''],
                      args := [param ''c''], defaults := [Src ''1'', Src ''2'']\<rparr>) None False
      = Inr ''(c=2)''"
proof -
  let ?f = "no_arguments\<lparr>posonlyargs := [param ''a'', param ''b''],
                         args := [param ''c''], defaults := [Src ''1'', Src ''2'']\<rparr>"
  have h: "length (defaults ?f) \<le> length (posonlyargs ?f) + length (args ?f)"
    by (simp add: no_arguments_def)
  from positional_only_parameters_not_rendered [OF h, of sample_env None False, THEN conjunct2] h
  show ?thesis
    by (simp add: trailing_rule_entries_def trailing_default_def positional_entry_def text_simps)
qed

text \<open>
  C10 as stated fails: no callable with positional-only parameters has a rendered signature
  that differs from the rendering by the trailing rule.
\<close>

theorem positional_only_defaults_counterexample:
  "\<not> (\<exists>env a returns is_async.
        posonlyargs a \<noteq> []
      \<and> length (defaults a) \<le> length (posonlyargs a) + length (args a)
      \<and> get_function_signature env a returns is_async \<noteq>
          Inr (async_prefix is_async @ ''(''
               @ join '', '' (trailing_rule_entries env a @ variadic_entries env a)
               @ '')'' @ return_suffix env returns))"
  using signature_follows_trailing_rule by blast

section \<open>What the extractor returns\<close>

lemma get_docstring_docstring_stmt [simp]:
  "get_docstring env (docstring_stmt body) = get_docstring env body"
  by (cases body rule: docstring_stmt.cases) (simp_all add: get_docstring_def)

lemma make_func_info_docstring_stmt [simp]:
  "make_func_info env incl a (docstring_stmt body) returns is_async =
   make_func_info env incl a body returns is_async"
  by (simp add: make_func_info_def)

lemma make_func_info_total:
  "\<exists>info. make_func_info env incl a body returns is_async = Inr info"
  by (simp add: make_func_info_def get_function_signature_eq)

lemma class_items_total: "\<exists>r. class_items env incl body acc = Inr r"
proof (induction env incl body acc rule: class_items.induct)
  case (2 env incl name a body returns rest class_info)
  obtain info where "make_func_info env incl a body returns False = Inr info"
    using make_func_info_total by blast
  with 2 show ?case by simp
next
  case (3 env incl name a body returns rest class_info)
  obtain info where "make_func_info env incl a body returns True = Inr info"
    using make_func_info_total by blast
  with 3 show ?case by simp
qed simp_all

lemma module_items_total: "\<exists>fs' cs'. module_items env incl body fs cs = Inr (fs', cs')"
proof (induction env incl body fs cs rule: module_items.induct)
  case (2 env incl name a body returns rest fs cs)
  obtain info where "make_func_info env incl a body returns False = Inr info"
    using make_func_info_total by blast
  with 2 show ?case by simp
next
  case (3 env incl name a body returns rest fs cs)
  obtain info where "make_func_info env incl a body returns True = Inr info"
    using make_func_info_total by blast
  with 3 show ?case by simp
next
  case (4 env incl name body rest fs cs)
  obtain r where "class_items env incl body [] = Inr r"
    using class_items_total by blast
  with 4 show ?case by simp
qed simp_all

lemma class_items_append:
  "class_items env incl (xs @ ys) acc =
   rbind (class_items env incl xs acc) (\<lambda>r. class_items env incl ys r)"
proof (induction env incl xs acc rule: class_items.induct)
  case (2 env incl name a body returns rest class_info)
  obtain info where "make_func_info env incl a body returns False = Inr info"
    using make_func_info_total by blast
  with 2 show ?case by simp
next
  case (3 env incl name a body returns rest class_info)
  obtain info where "make_func_info env incl a body returns True = Inr info"
    using make_func_info_total by blast
  with 3 show ?case by simp
qed simp_all

lemma class_items_shallow_methods:
  "class_items env incl (concat (map shallow_method body)) acc = class_items env incl body acc"
proof (induction env incl body acc rule: class_items.induct)
  case (2 env incl name a body returns rest class_info)
  obtain info where "make_func_info env incl a body returns False = Inr info"
    using make_func_info_total by blast
  with 2 show ?case by simp
next
  case (3 env incl name a body returns rest class_info)
  obtain info where "make_func_info env incl a body returns True = Inr info"
    using make_func_info_total by blast
  with 3 show ?case by simp
qed simp_all

lemma class_items_docstring_stmt [simp]:
  "class_items env incl (docstring_stmt body) acc = Inr acc"
  by (cases body rule: docstring_stmt.cases) simp_all

lemma class_items_shallow [simp]:
  "class_items env incl (shallow_class_body body) acc = class_items env incl body acc"
  by (simp add: shallow_class_body_def class_items_append class_items_shallow_methods)

lemma get_docstring_shallow_methods:
  "get_docstring env (concat (map shallow_method body)) = None"
proof (induction body)
  case Nil
  show ?case by (simp add: get_docstring_def)
next
  case (Cons s body)
  then show ?case
    by (cases s rule: shallow_method.cases) (simp_all add: get_docstring_def)
qed

lemma get_docstring_shallow_class_body [simp]:
  "get_docstring env (shallow_class_body body) = get_docstring env body"
proof (cases body rule: docstring_stmt.cases)
  case (1 e rest)
  then show ?thesis by (simp add: shallow_class_body_def get_docstring_def)
qed (simp_all add: shallow_class_body_def get_docstring_shallow_methods,
     simp_all add: get_docstring_def)

lemma module_items_shallow:
  "module_items env incl (shallow_module body) fs cs = module_items env incl body fs cs"
  unfolding shallow_module_def
proof (induction env incl body fs cs rule: module_items.induct)
  case (2 env incl name a body returns rest fs cs)
  obtain info where "make_func_info env incl a body returns False = Inr info"
    using make_func_info_total by blast
  with 2 show ?case by simp
next
  case (3 env incl name a body returns rest fs cs)
  obtain info where "make_func_info env incl a body returns True = Inr info"
    using make_func_info_total by blast
  with 3 show ?case by simp
next
  case (4 env incl name body rest fs cs)
  obtain r where "class_items env incl body [] = Inr r"
    using class_items_total by blast
  with 4 show ?case by (cases incl) simp_all
qed simp_all

lemma prune_fresh_total:
  "\<exists>m. prune_empty_items \<lparr>functions = Some fs, classes = Some cs\<rparr> = Inr m"
  by (simp add: prune_empty_items_def Let_def)

lemma extract_total: "\<exists>m. extract_signatures_with_ast env path incl = Inr m"
proof (cases "parse env path")
  case (Inl err)
  then show ?thesis by (simp add: extract_signatures_with_ast_def)
next
  case (Inr body)
  obtain fs cs where "module_items env incl body [] [] = Inr (fs, cs)"
    using module_items_total by blast
  with Inr prune_fresh_total [of fs cs] show ?thesis
    by (auto simp add: extract_signatures_with_ast_def)
qed

lemma get_docstring_parse [simp]:
  "get_docstring (env\<lparr>parse := p\<rparr>) body = get_docstring env body"
  by (simp add: get_docstring_def cong: list.case_cong stmt.case_cong option.case_cong)

lemma unparse_or_placeholder_parse [simp]:
  "unparse_or_placeholder (env\<lparr>parse := p\<rparr>) e = unparse_or_placeholder env e"
  by (simp add: unparse_or_placeholder_def)

lemma add_annotation_parse [simp]:
  "add_annotation (env\<lparr>parse := p\<rparr>) s ann = add_annotation env s ann"
  by (simp add: add_annotation_def split: option.split)

lemma positional_args_parse [simp]:
  "positional_args (env\<lparr>parse := p\<rparr>) dflts i ps acc = positional_args env dflts i ps acc"
  by (induction ps arbitrary: i acc) (simp_all split: option.split)

lemma get_function_signature_parse [simp]:
  "get_function_signature (env\<lparr>parse := p\<rparr>) a returns is_async =
   get_function_signature env a returns is_async"
  by (simp add: get_function_signature_def cong: option.case_cong)

lemma make_func_info_parse [simp]:
  "make_func_info (env\<lparr>parse := p\<rparr>) incl a body returns is_async =
   make_func_info env incl a body returns is_async"
  by (simp add: make_func_info_def)

lemma class_items_parse [simp]:
  "class_items (env\<lparr>parse := p\<rparr>) incl body acc = class_items env incl body acc"
proof (induction env incl body acc rule: class_items.induct)
  case (2 env incl name a body returns rest class_info)
  obtain info where "make_func_info env incl a body returns False = Inr info"
    using make_func_info_total by blast
  with 2 show ?case by simp
next
  case (3 env incl name a body returns rest class_info)
  obtain info where "make_func_info env incl a body returns True = Inr info"
    using make_func_info_total by blast
  with 3 show ?case by simp
qed simp_all

lemma module_items_parse [simp]:
  "module_items (env\<lparr>parse := p\<rparr>) incl body fs cs = module_items env incl body fs cs"
proof (induction env incl body fs cs rule: module_items.induct)
  case (2 env incl name a body returns rest fs cs)
  obtain info where "make_func_info env incl a body returns False = Inr info"
    using make_func_info_total by blast
  with 2 show ?case by simp
next
  case (3 env incl name a body returns rest fs cs)
  obtain info where "make_func_info env incl a body returns True = Inr info"
    using make_func_info_total by blast
  with 3 show ?case by simp
next
  case (4 env incl name body rest fs cs)
  obtain r where "class_items env incl body [] = Inr r"
    using class_items_total by blast
  with 4 show ?case by (cases incl) simp_all
qed simp_all

lemmas run_simps =
  extract_signatures_with_ast_def extract_signatures_with_ast_method_def sample_parse_def
  make_func_info_def get_function_signature_eq defaults_table_eq positional_entry_def
  get_docstring_def prune_empty_items_def prune_class_def drop_empty_docstring_def
  empty_func_info_def empty_class_entry_def empty_module_info_def truthy_def Let_def
  async_prefix_def annotation_suffix_def expr_text_def variadic_entries_def return_suffix_def
  no_arguments_def param_def sample_env_simps

lemma nested_run:
  "extract_signatures_with_ast sample_env ''root/nested.py'' False =
     Inr \<lparr>functions = Some [(''outer'', \<lparr>signature = Some ''()'', docstring = None\<rparr>)],
          classes = Some [(''K'', \<lparr>methods = Some [(''m'', \<lparr>signature = Some ''(self)'',
                                                         docstring = None\<rparr>)],
                                   class_docstring = None\<rparr>)]\<rparr>"
  by (simp add: run_simps)

lemma extract_files_append:
  "extract_files env root incl (xs @ ys) result =
   rbind (extract_files env root incl xs result) (\<lambda>r. extract_files env root incl ys r)"
proof (induction xs arbitrary: result)
  case Nil
  show ?case by simp
next
  case (Cons x xs)
  obtain m where "extract_signatures_with_ast env x incl = Inr m"
    using extract_total by blast
  with Cons show ?case by simp
qed

lemma extract_files_total: "\<exists>r. extract_files env root incl files result = Inr r"
proof (induction files arbitrary: result)
  case Nil
  show ?case by simp
next
  case (Cons x xs)
  obtain m where "extract_signatures_with_ast env x incl = Inr m"
    using extract_total by blast
  with Cons show ?case by simp
qed

lemma drop_empty_docstring_idem [simp]:
  "drop_empty_docstring (drop_empty_docstring info) = drop_empty_docstring info"
  by (simp add: drop_empty_docstring_def)

lemma prune_callables_idem [simp]:
  "prune_callables (prune_callables xs) = prune_callables xs"
  by (induction xs rule: prune_callables.induct) simp_all

lemma prune_class_idem [simp]: "prune_class (prune_class c) = prune_class c"
  by (cases "methods c") (simp_all add: prune_class_def Let_def)

lemma prune_classes_idem [simp]:
  "prune_classes (prune_classes xs) = prune_classes xs"
  by (induction xs rule: prune_classes.induct) simp_all

lemma prune_empty_items_Inr:
  assumes "prune_empty_items m = Inr m'"
  obtains fs cs where "functions m = Some fs" "classes m = Some cs"
    "m' = \<lparr>functions = (if fs = [] then None else Some (prune_callables fs)),
           classes = (if cs = [] then None else Some (prune_classes cs))\<rparr>"
proof -
  from assms obtain fs where fs: "functions m = Some fs"
    by (auto simp add: prune_empty_items_def split: option.splits)
  from assms fs obtain cs where cs: "classes m = Some cs"
    by (auto simp add: prune_empty_items_def Let_def split: option.splits if_splits)
  from assms fs cs
  have "m' = \<lparr>functions = (if fs = [] then None else Some (prune_callables fs)),
           classes = (if cs = [] then None else Some (prune_classes cs))\<rparr>"
    by (cases m) (auto simp add: prune_empty_items_def Let_def)
  with fs cs that show thesis by blast
qed

section \<open>Properties of the extractor and of the pruning pass\<close>

text \<open>
  C1 fails on the code: lines 92-95 look at \<^verbatim>\<open>module_info['classes']\<close> before the loop
  of lines 106-125 deletes the classes that have become empty. For the module
  \<^verbatim>\<open>class C: pass\<close> the pass returns \<^verbatim>\<open>{'classes': {}}\<close>, a mapping value that is an empty
  container, and the file is reported with it.
\<close>

theorem pruning_leaves_empty_classes:
  "extract_signatures_with_ast sample_env ''root/only_class.py'' True =
     Inr \<lparr>functions = None, classes = Some []\<rparr>
   \<and> extract_signatures_with_ast_method sample_env ''root'' [''root/only_class.py''] True =
     Inr [(''only_class.py'', \<lparr>functions = None, classes = Some []\<rparr>)]"
  by (simp add: run_simps)

text \<open>
  C2, as amended: after a first run of the pruning pass, a second run raises
  \<^verbatim>\<open>KeyError('functions')\<close> when the first has deleted \<^verbatim>\<open>'functions'\<close>, raises
  \<^verbatim>\<open>KeyError('classes')\<close> when \<^verbatim>\<open>'functions'\<close> is still there and the first has deleted
  \<^verbatim>\<open>'classes'\<close>, and returns the same dictionary when the first has left both keys in place
  and not empty. Both keys were present before the first run.
\<close>

theorem pruning_twice:
  assumes "prune_empty_items m = Inr m'"
  shows "functions m \<noteq> None \<and> classes m \<noteq> None
    \<and> (functions m' = None \<longrightarrow> prune_empty_items m' = Inl (KeyError ''functions''))
    \<and> (functions m' \<noteq> None \<and> classes m' = None \<longrightarrow>
         prune_empty_items m' = Inl (KeyError ''classes''))
    \<and> (functions m' \<noteq> None \<and> functions m' \<noteq> Some []
         \<and> classes m' \<noteq> None \<and> classes m' \<noteq> Some [] \<longrightarrow>
         prune_empty_items m' = Inr m')"
proof -
  from assms obtain fs cs where
    m: "functions m = Some fs" "classes m = Some cs" and
    m': "m' = \<lparr>functions = (if fs = [] then None else Some (prune_callables fs)),
           classes = (if cs = [] then None else Some (prune_classes cs))\<rparr>"
    by (rule prune_empty_items_Inr)
  from m have "functions m \<noteq> None \<and> classes m \<noteq> None" by simp
  moreover from m' have "functions m' = None \<longrightarrow>
      prune_empty_items m' = Inl (KeyError ''functions'')"
    by (simp add: prune_empty_items_def)
  moreover from m' have "functions m' \<noteq> None \<and> classes m' = None \<longrightarrow>
      prune_empty_items m' = Inl (KeyError ''classes'')"
    by (cases "fs = []"; cases "cs = []") (simp_all add: prune_empty_items_def Let_def)
  moreover from m' have "functions m' \<noteq> None \<and> functions m' \<noteq> Some []
      \<and> classes m' \<noteq> None \<and> classes m' \<noteq> Some [] \<longrightarrow> prune_empty_items m' = Inr m'"
    by (cases "fs = []"; cases "cs = []") (simp_all add: prune_empty_items_def Let_def)
  ultimately show ?thesis by blast
qed

theorem pruning_twice_witness:
  "prune_empty_items
     \<lparr>functions = Some [(''f'', \<lparr>signature = Some ''()'', docstring = Some ''''\<rparr>)],
      classes = Some [(''C'', \<lparr>methods = Some [(''m'', \<lparr>signature = Some ''(self)'',
                                                     docstring = Some ''x''\<rparr>)],
                               class_docstring = Some ''''\<rparr>)]\<rparr>
   = Inr \<lparr>functions = Some [(''f'', \<lparr>signature = Some ''()'', docstring = None\<rparr>)],
          classes = Some [(''C'', \<lparr>methods = Some [(''m'', \<lparr>signature = Some ''(self)'',
                                                         docstring = Some ''x''\<rparr>)],
                                   class_docstring = None\<rparr>)]\<rparr>
   \<and> prune_empty_items
     \<lparr>functions = Some [(''f'', \<lparr>signature = Some ''()'', docstring = None\<rparr>)],
      classes = Some [(''C'', \<lparr>methods = Some [(''m'', \<lparr>signature = Some ''(self)'',
                                                     docstring = Some ''x''\<rparr>)],
                               class_docstring = None\<rparr>)]\<rparr>
   = Inr \<lparr>functions = Some [(''f'', \<lparr>signature = Some ''()'', docstring = None\<rparr>)],
          classes = Some [(''C'', \<lparr>methods = Some [(''m'', \<lparr>signature = Some ''(self)'',
                                                         docstring = Some ''x''\<rparr>)],
                                   class_docstring = None\<rparr>)]\<rparr>
   \<and> prune_empty_items
     \<lparr>functions = Some [],
      classes = Some [(''C'', \<lparr>methods = Some [], class_docstring = Some ''''\<rparr>)]\<rparr>
   = Inr \<lparr>functions = None, classes = Some []\<rparr>
   \<and> prune_empty_items \<lparr>functions = None, classes = Some []\<rparr> = Inl (KeyError ''functions'')
   \<and> prune_empty_items
     \<lparr>functions = Some [(''f'', \<lparr>signature = Some ''()'', docstring = None\<rparr>)],
      classes = Some []\<rparr>
   = Inr \<lparr>functions = Some [(''f'', \<lparr>signature = Some ''()'', docstring = None\<rparr>)],
          classes = None\<rparr>
   \<and> prune_empty_items
     \<lparr>functions = Some [(''f'', \<lparr>signature = Some ''()'', docstring = None\<rparr>)],
      classes = None\<rparr>
   = Inl (KeyError ''classes'')"
proof -
  let ?m = "\<lparr>functions = Some [(''f'', \<lparr>signature = Some ''()'', docstring = Some ''''\<rparr>)],
      classes = Some [(''C'', \<lparr>methods = Some [(''m'', \<lparr>signature = Some ''(self)'',
                                                     docstring = Some ''x''\<rparr>)],
                               class_docstring = Some ''''\<rparr>)]\<rparr>"
  let ?m' = "\<lparr>functions = Some [(''f'', \<lparr>signature = Some ''()'', docstring = None\<rparr>)],
          classes = Some [(''C'', \<lparr>methods = Some [(''m'', \<lparr>signature = Some ''(self)'',
                                                         docstring = Some ''x''\<rparr>)],
                                   class_docstring = None\<rparr>)]\<rparr>"
  let ?c = "\<lparr>functions = Some [],
      classes = Some [(''C'', \<lparr>methods = Some [], class_docstring = Some ''''\<rparr>)]\<rparr>"
  let ?c' = "\<lparr>functions = None, classes = Some []\<rparr>"
  let ?f = "\<lparr>functions = Some [(''f'', \<lparr>signature = Some ''()'', docstring = None\<rparr>)],
      classes = Some []\<rparr>"
  let ?f' = "\<lparr>functions = Some [(''f'', \<lparr>signature = Some ''()'', docstring = None\<rparr>)],
      classes = None\<rparr>"
  have h1: "prune_empty_items ?m = Inr ?m'"
    by (simp add: prune_empty_items_def prune_class_def drop_empty_docstring_def
          empty_func_info_def empty_class_entry_def Let_def)
  have h2: "prune_empty_items ?c = Inr ?c'"
    by (simp add: prune_empty_items_def prune_class_def drop_empty_docstring_def
          empty_func_info_def empty_class_entry_def Let_def)
  have h3: "prune_empty_items ?f = Inr ?f'"
    by (simp add: prune_empty_items_def prune_class_def drop_empty_docstring_def
          empty_func_info_def empty_class_entry_def Let_def)
  from pruning_twice [OF h1] have 1: "prune_empty_items ?m' = Inr ?m'" by simp
  from pruning_twice [OF h2] have 2: "prune_empty_items ?c' = Inl (KeyError ''functions'')"
    by simp
  from pruning_twice [OF h3] have 3: "prune_empty_items ?f' = Inl (KeyError ''classes'')"
    by simp
  from h1 h2 h3 1 2 3 show ?thesis by blast
qed

text \<open>
  C2 as stated fails: on the dictionary of a module without functions and classes the
  first run returns \<^verbatim>\<open>{}\<close> and the second raises \<^verbatim>\<open>KeyError\<close>.
\<close>

theorem pruning_twice_counterexample:
  "prune_empty_items \<lparr>functions = Some [], classes = Some []\<rparr> = Inr empty_module_info
   \<and> rbind (prune_empty_items \<lparr>functions = Some [], classes = Some []\<rparr>) prune_empty_items
       = Inl (KeyError ''functions'')
   \<and> rbind (prune_empty_items \<lparr>functions = Some [], classes = Some []\<rparr>) prune_empty_items
       \<noteq> prune_empty_items \<lparr>functions = Some [], classes = Some []\<rparr>"
  by (simp add: prune_empty_items_def empty_module_info_def)

text \<open>
  C5: a file that fails to parse yields \<^verbatim>\<open>{}\<close>; the files before and after it are
  processed as without it, and the run returns a report; the file has no entry when
  \<^verbatim>\<open>REPORT_EMPTY_ITEMS\<close> is set, and the entry \<^verbatim>\<open>{}\<close> when it is not.
\<close>

theorem parse_failure_is_local:
  assumes "parse env path = Inl err"
  shows "extract_signatures_with_ast env path incl = Inr empty_module_info
    \<and> extract_signatures_with_ast_method env root (before @ path # after) incl =
        rbind (extract_signatures_with_ast_method env root before incl) (\<lambda>report.
          extract_files env root incl after
            (if REPORT_EMPTY_ITEMS env then report
             else AList.update (relpath env path root) empty_module_info report))
    \<and> (\<exists>report. extract_signatures_with_ast_method env root (before @ path # after) incl
          = Inr report)"
proof -
  have 1: "extract_signatures_with_ast env path incl = Inr empty_module_info"
    using assms by (simp add: extract_signatures_with_ast_def)
  have 2: "extract_files env root incl (path # after) report =
      extract_files env root incl after
        (if REPORT_EMPTY_ITEMS env then report
         else AList.update (relpath env path root) empty_module_info report)" for report
    by (simp add: 1 truthy_def empty_module_info_def)
  have 3: "extract_signatures_with_ast_method env root (before @ path # after) incl =
      rbind (extract_signatures_with_ast_method env root before incl) (\<lambda>report.
        extract_files env root incl after
          (if REPORT_EMPTY_ITEMS env then report
           else AList.update (relpath env path root) empty_module_info report))"
    unfolding extract_signatures_with_ast_method_def extract_files_append 2 ..
  have 4: "\<exists>report. extract_signatures_with_ast_method env root (before @ path # after) incl
      = Inr report"
    unfolding extract_signatures_with_ast_method_def by (rule extract_files_total)
  from 1 3 4 show ?thesis by blast
qed

theorem parse_failure_is_local_witness:
  "parse sample_env ''root/bad.py'' = Inl (SyntaxError ''invalid syntax'')
   \<and> extract_signatures_with_ast sample_env ''root/bad.py'' False = Inr empty_module_info
   \<and> extract_signatures_with_ast_method sample_env ''root''
        [''root/a.py'', ''root/bad.py'', ''root/nested.py''] False =
       Inr [(''a.py'',
             \<lparr>functions = Some [(''f'', \<lparr>signature = Some ''(a, b=2)'', docstring = None\<rparr>)],
              classes = None\<rparr>),
            (''nested.py'',
             \<lparr>functions = Some [(''outer'', \<lparr>signature = Some ''()'', docstring = None\<rparr>)],
              classes = Some [(''K'', \<lparr>methods = Some [(''m'', \<lparr>signature = Some ''(self)'',
                                                             docstring = None\<rparr>)],
                                       class_docstring = None\<rparr>)]\<rparr>)]
   \<and> extract_signatures_with_ast_method (sample_env\<lparr>REPORT_EMPTY_ITEMS := False\<rparr>) ''root''
        [''root/bad.py''] False =
       Inr [(''bad.py'', empty_module_info)]"
proof -
  have h: "parse sample_env ''root/bad.py'' = Inl (SyntaxError ''invalid syntax'')"
    by (simp add: sample_env_simps sample_parse_def)
  have h': "parse (sample_env\<lparr>REPORT_EMPTY_ITEMS := False\<rparr>) ''root/bad.py''
      = Inl (SyntaxError ''invalid syntax'')"
    by (simp add: sample_env_simps sample_parse_def)
  have a: "extract_signatures_with_ast_method sample_env ''root'' [''root/a.py''] False =
      Inr [(''a.py'',
            \<lparr>functions = Some [(''f'', \<lparr>signature = Some ''(a, b=2)'', docstring = None\<rparr>)],
             classes = None\<rparr>)]"
    by (simp add: run_simps)
  have n: "extract_files sample_env ''root'' False [''root/nested.py''] r =
      Inr (AList.update ''nested.py''
            \<lparr>functions = Some [(''outer'', \<lparr>signature = Some ''()'', docstring = None\<rparr>)],
              classes = Some [(''K'', \<lparr>methods = Some [(''m'', \<lparr>signature = Some ''(self)'',
                                                             docstring = None\<rparr>)],
                                       class_docstring = None\<rparr>)]\<rparr> r)" for r
    by (simp add: run_simps)
  have e: "extract_signatures_with_ast_method (sample_env\<lparr>REPORT_EMPTY_ITEMS := False\<rparr>) ''root'' [] False
      = Inr []"
    by (simp add: extract_signatures_with_ast_method_def)
  from parse_failure_is_local [OF h, of False "''root''" "[''root/a.py'']" "[''root/nested.py'']"]
  have 1: "extract_signatures_with_ast sample_env ''root/bad.py'' False = Inr empty_module_info"
    and 2: "extract_signatures_with_ast_method sample_env ''root''
        [''root/a.py'', ''root/bad.py'', ''root/nested.py''] False =
       Inr [(''a.py'',
             \<lparr>functions = Some [(''f'', \<lparr>signature = Some ''(a, b=2)'', docstring = None\<rparr>)],
              classes = None\<rparr>),
            (''nested.py'',
             \<lparr>functions = Some [(''outer'', \<lparr>signature = Some ''()'', docstring = None\<rparr>)],
              classes = Some [(''K'', \<lparr>methods = Some [(''m'', \<lparr>signature = Some ''(self)'',
                                                             docstring = None\<rparr>)],
                                       class_docstring = None\<rparr>)]\<rparr>)]"
    by (simp_all add: a nested_run truthy_def sample_env_simps)
  from parse_failure_is_local [OF h', of False "''root''" "[]" "[]"]
  have 3: "extract_signatures_with_ast_method (sample_env\<lparr>REPORT_EMPTY_ITEMS := False\<rparr>) ''root''
        [''root/bad.py''] False = Inr [(''bad.py'', empty_module_info)]"
    by (simp add: e sample_env_simps)
  from h 1 2 3 show ?thesis by blast
qed

text \<open>
  C6: the extractor never raises, and its result is the result on the shallow part of
  the module: top-level functions, async functions and classes, and the functions and async
  functions directly in a class body. Every other statement there is skipped, and nothing
  nested deeper is read.
\<close>

theorem two_depths_only:
  "(\<exists>m. extract_signatures_with_ast (env\<lparr>parse := (\<lambda>_. Inr body)\<rparr>) path incl = Inr m
      \<and> extract_signatures_with_ast (env\<lparr>parse := (\<lambda>_. Inr (shallow_module body))\<rparr>) path incl
          = Inr m)
   \<and> extract_signatures_with_ast sample_env ''root/nested.py'' False =
       Inr \<lparr>functions = Some [(''outer'', \<lparr>signature = Some ''()'', docstring = None\<rparr>)],
            classes = Some [(''K'', \<lparr>methods = Some [(''m'', \<lparr>signature = Some ''(self)'',
                                                           docstring = None\<rparr>)],
                                     class_docstring = None\<rparr>)]\<rparr>"
proof -
  obtain m where m: "extract_signatures_with_ast (env\<lparr>parse := (\<lambda>_. Inr body)\<rparr>) path incl = Inr m"
    using extract_total by blast
  have "extract_signatures_with_ast (env\<lparr>parse := (\<lambda>_. Inr (shallow_module body))\<rparr>) path incl
      = extract_signatures_with_ast (env\<lparr>parse := (\<lambda>_. Inr body)\<rparr>) path incl"
    by (simp add: extract_signatures_with_ast_def module_items_shallow)
  with m nested_run show ?thesis by simp
qed

end
